theory Spec2Isabelle
  imports Complex_Main "HOL-Library.Multiset"
begin

section \<open>Reusable-object pool (ObjectPool.ts)\<close>

text \<open>
  Pooled objects are JavaScript references; the model names each object by the
  natural number of its allocation, so that \<open>inUse\<close> (a JavaScript \<open>Set\<close>, kept
  here as a duplicate-free list in insertion order) compares by identity as the
  source does.  \<open>nextRef\<close> is the reference the next \<open>factory()\<close> call
  returns.  The optional \<open>reset\<close> callback only rewrites the fields of the
  released object and is not part of the bookkeeping modelled here.
\<close>

record ObjectPool =
  available :: "nat list"
  inUse :: "nat list"
  maxSize :: int
  nextRef :: nat

definition set_add :: "nat \<Rightarrow> nat list \<Rightarrow> nat list" where
  "set_add x xs = (if x \<in> set xs then xs else xs @ [x])"

definition set_delete :: "nat \<Rightarrow> nat list \<Rightarrow> nat list" where
  "set_delete x xs = filter (\<lambda>y. y \<noteq> x) xs"

text \<open>The constructor pre-populates \<open>min(10, maxSize)\<close> objects.\<close>

definition new_ObjectPool :: "int \<Rightarrow> ObjectPool" where
  "new_ObjectPool m =
     (let n = nat (min 10 m)
      in \<lparr>available = [0..<n], inUse = [], maxSize = m, nextRef = n\<rparr>)"

definition acquire :: "ObjectPool \<Rightarrow> nat \<times> ObjectPool" where
  "acquire p =
     (if length (available p) > 0
      then (let obj = last (available p)
            in (obj, p\<lparr>available := butlast (available p),
                       inUse := set_add obj (inUse p)\<rparr>))
      else (let obj = nextRef p
            in (obj, p\<lparr>nextRef := Suc (nextRef p),
                       inUse := set_add obj (inUse p)\<rparr>)))"

definition release :: "nat \<Rightarrow> ObjectPool \<Rightarrow> ObjectPool" where
  "release obj p =
     (if obj \<notin> set (inUse p) then p
      else (let p1 = p\<lparr>inUse := set_delete obj (inUse p)\<rparr>
            in if int (length (available p1)) < maxSize p1
               then p1\<lparr>available := available p1 @ [obj]\<rparr>
               else p1))"

datatype pool_op = Acquire | Release nat

fun pool_step :: "ObjectPool \<Rightarrow> pool_op \<Rightarrow> ObjectPool" where
  "pool_step p Acquire = snd (acquire p)"
| "pool_step p (Release obj) = release obj p"

definition pool_run :: "pool_op list \<Rightarrow> ObjectPool \<Rightarrow> ObjectPool" where
  "pool_run ops p = foldl pool_step p ops"

definition pool_total :: "ObjectPool \<Rightarrow> int" where
  "pool_total p = int (length (available p)) + int (length (inUse p))"

section \<open>Numbers, vectors and identifiers\<close>

text \<open>
  JavaScript numbers are modelled as exact reals: rounding of IEEE doubles is
  not represented.  Where the source can divide by zero the non-finite results
  of IEEE arithmetic are written out with \<open>jsnum\<close>.  Identifiers are strings
  in the source; the generated ones have the shape
  \<open>prefix-${Date.now()}-${Math.random()}\<close>, kept here as the prefix and the
  two numbers.
\<close>

datatype Vector3 = Vector3 (vx: real) (vy: real) (vz: real)

definition distanceTo :: "Vector3 \<Rightarrow> Vector3 \<Rightarrow> real" where
  "distanceTo p q =
     sqrt ((vx p - vx q) * (vx p - vx q) + (vy p - vy q) * (vy p - vy q)
           + (vz p - vz q) * (vz p - vz q))"

definition sub :: "Vector3 \<Rightarrow> Vector3 \<Rightarrow> Vector3" where
  "sub p q = Vector3 (vx p - vx q) (vy p - vy q) (vz p - vz q)"

definition dot :: "Vector3 \<Rightarrow> Vector3 \<Rightarrow> real" where
  "dot p q = vx p * vx q + vy p * vy q + vz p * vz q"

definition lengthSq :: "Vector3 \<Rightarrow> real" where
  "lengthSq p = vx p * vx p + vy p * vy p + vz p * vz p"

datatype jsnum = Fin real | PosInf | NegInf | NaN

datatype JSVector3 = JSVector3 jsnum jsnum jsnum

definition finite_vec :: "Vector3 \<Rightarrow> JSVector3" where
  "finite_vec p = JSVector3 (Fin (vx p)) (Fin (vy p)) (Fin (vz p))"

text \<open>\<open>x / y\<close> for finite \<open>x\<close> and \<open>y\<close>, with IEEE division by (positive) zero.\<close>

definition js_div :: "real \<Rightarrow> real \<Rightarrow> jsnum" where
  "js_div x y =
     (if y \<noteq> 0 then Fin (x / y)
      else if x = 0 then NaN
      else if x > 0 then PosInf else NegInf)"

text \<open>\<open>Math.min\<close>: \<open>NaN\<close> if either argument is \<open>NaN\<close>.\<close>

fun js_min :: "jsnum \<Rightarrow> jsnum \<Rightarrow> jsnum" where
  "js_min NaN _ = NaN"
| "js_min _ NaN = NaN"
| "js_min NegInf _ = NegInf"
| "js_min _ NegInf = NegInf"
| "js_min PosInf t = t"
| "js_min t PosInf = t"
| "js_min (Fin a) (Fin b) = Fin (min a b)"

text \<open>\<open>t < 0\<close>: false for \<open>NaN\<close>.\<close>

fun js_lt_zero :: "jsnum \<Rightarrow> bool" where
  "js_lt_zero (Fin a) = (a < 0)"
| "js_lt_zero NegInf = True"
| "js_lt_zero PosInf = False"
| "js_lt_zero NaN = False"

text \<open>\<open>p + v * t\<close> for finite \<open>p\<close>, \<open>v\<close> and any \<open>t\<close> (\<open>0 * Infinity\<close> is \<open>NaN\<close>).\<close>

fun js_add_scaled :: "real \<Rightarrow> real \<Rightarrow> jsnum \<Rightarrow> jsnum" where
  "js_add_scaled p v (Fin t) = Fin (p + v * t)"
| "js_add_scaled p v NaN = NaN"
| "js_add_scaled p v PosInf = (if v = 0 then NaN else if v > 0 then PosInf else NegInf)"
| "js_add_scaled p v NegInf = (if v = 0 then NaN else if v > 0 then NegInf else PosInf)"

datatype ident = Lit string | Gen string real real

text \<open>Truthiness of a \<open>string | null\<close>: \<open>null\<close> and the empty string are falsy.\<close>

definition truthy :: "ident option \<Rightarrow> bool" where
  "truthy i = (case i of None \<Rightarrow> False | Some (Lit name) \<Rightarrow> name \<noteq> [] | Some _ \<Rightarrow> True)"

section \<open>Targeting resolver (TargetingSystem.ts)\<close>

record TargetableEntity =
  te_id :: ident
  te_position :: Vector3
  te_health :: "real option"
  te_maxHealth :: "real option"

record TargetingEntity =
  tg_id :: ident
  tg_position :: Vector3
  tg_range :: real
  tg_currentTargetId :: "ident option"

datatype TargetingStrategy = Closest | Weakest | Strongest | First | Last

text \<open>
  \<open>targetCache\<close> is a \<open>Map<string, string | null>\<close>: \<open>None\<close> is an absent key,
  \<open>Some None\<close> a key mapped to \<open>null\<close>.
\<close>

record TargetingSystem =
  targetingStrategy :: TargetingStrategy
  targetCache :: "ident \<rightharpoonup> ident option"
  lastUpdateTime :: real
  cacheUpdateInterval :: real

definition new_TargetingSystem :: "TargetingStrategy \<Rightarrow> TargetingSystem" where
  "new_TargetingSystem strategy =
     \<lparr>targetingStrategy = strategy, targetCache = Map.empty,
      lastUpdateTime = 0, cacheUpdateInterval = 100\<rparr>"

definition getDistance :: "Vector3 \<Rightarrow> Vector3 \<Rightarrow> real" where
  "getDistance pos1 pos2 = distanceTo pos1 pos2"

definition isInRange :: "TargetingEntity \<Rightarrow> TargetableEntity \<Rightarrow> bool" where
  "isInRange entity target =
     (getDistance (tg_position entity) (te_position target) \<le> tg_range entity)"

text \<open>
  The loop of \<open>findClosestTarget\<close>: the state is \<open>(closest, minDistance)\<close>, with
  \<open>None\<close> for the initial \<open>null\<close> and \<open>Infinity\<close>.
\<close>

definition closest_step ::
  "TargetingEntity \<Rightarrow> TargetableEntity option \<times> real option \<Rightarrow> TargetableEntity
     \<Rightarrow> TargetableEntity option \<times> real option" where
  "closest_step entity acc target =
     (let distance = getDistance (tg_position entity) (te_position target)
      in if (case snd acc of None \<Rightarrow> True | Some minDistance \<Rightarrow> distance < minDistance)
         then (Some target, Some distance)
         else acc)"

definition findClosestTarget ::
  "TargetingEntity \<Rightarrow> TargetableEntity list \<Rightarrow> TargetableEntity option" where
  "findClosestTarget entity targets = fst (foldl (closest_step entity) (None, None) targets)"

definition weakest_step ::
  "TargetableEntity option \<times> real option \<Rightarrow> TargetableEntity
     \<Rightarrow> TargetableEntity option \<times> real option" where
  "weakest_step acc target =
     (case te_health target of
        None \<Rightarrow> acc
      | Some h \<Rightarrow>
          if (case snd acc of None \<Rightarrow> True | Some minHealth \<Rightarrow> h < minHealth)
          then (Some target, Some h) else acc)"

definition first_or_undefined :: "'a list \<Rightarrow> 'a option" where
  "first_or_undefined xs = (case xs of [] \<Rightarrow> None | x # _ \<Rightarrow> Some x)"

definition findWeakestTarget :: "TargetableEntity list \<Rightarrow> TargetableEntity option" where
  "findWeakestTarget targets =
     (case fst (foldl weakest_step (None, None) targets) of
        Some t \<Rightarrow> Some t
      | None \<Rightarrow> first_or_undefined targets)"

definition strongest_step ::
  "TargetableEntity option \<times> real \<Rightarrow> TargetableEntity \<Rightarrow> TargetableEntity option \<times> real" where
  "strongest_step acc target =
     (case te_health target of
        None \<Rightarrow> acc
      | Some h \<Rightarrow> if h > snd acc then (Some target, h) else acc)"

definition findStrongestTarget :: "TargetableEntity list \<Rightarrow> TargetableEntity option" where
  "findStrongestTarget targets =
     (case fst (foldl strongest_step (None, 0) targets) of
        Some t \<Rightarrow> Some t
      | None \<Rightarrow> first_or_undefined targets)"

text \<open>
  The first block of \<open>findBestTarget\<close>: the memoized id, when the memo is
  fresh (\<open>now - lastUpdateTime < cacheUpdateInterval\<close>), holds a truthy id
  for this entity, and that id still names a hostile of the list in range.
\<close>

definition cached_target ::
  "real \<Rightarrow> TargetingSystem \<Rightarrow> TargetingEntity \<Rightarrow> TargetableEntity list \<Rightarrow> ident option" where
  "cached_target now sys entity potentialTargets =
     (if now - lastUpdateTime sys < cacheUpdateInterval sys
      then (case targetCache sys (tg_id entity) of
              Some (Some cachedTarget) \<Rightarrow>
                if truthy (Some cachedTarget)
                then (case find (\<lambda>t. te_id t = cachedTarget) potentialTargets of
                        Some target \<Rightarrow>
                          if isInRange entity target then Some cachedTarget else None
                      | None \<Rightarrow> None)
                else None
            | _ \<Rightarrow> None)
      else None)"

definition apply_strategy ::
  "TargetingStrategy \<Rightarrow> TargetingEntity \<Rightarrow> TargetableEntity list \<Rightarrow> TargetableEntity option" where
  "apply_strategy strategy entity targetsInRange =
     (case strategy of
        Closest \<Rightarrow> findClosestTarget entity targetsInRange
      | Weakest \<Rightarrow> findWeakestTarget targetsInRange
      | Strongest \<Rightarrow> findStrongestTarget targetsInRange
      | First \<Rightarrow> first_or_undefined targetsInRange
      | Last \<Rightarrow> (if targetsInRange = [] then None else Some (last targetsInRange)))"

text \<open>\<open>now\<close> is the value \<open>Date.now()\<close> returns to this call.\<close>

definition findBestTarget ::
  "real \<Rightarrow> TargetingSystem \<Rightarrow> TargetingEntity \<Rightarrow> TargetableEntity list
     \<Rightarrow> ident option \<times> TargetingSystem" where
  "findBestTarget now sys entity potentialTargets =
     (let cacheKey = tg_id entity
      in case cached_target now sys entity potentialTargets of
           Some cachedTarget \<Rightarrow> (Some cachedTarget, sys)
         | None \<Rightarrow>
             (let targetsInRange = filter (isInRange entity) potentialTargets
              in if length targetsInRange = 0
                 then (None, sys\<lparr>targetCache := (targetCache sys)(cacheKey \<mapsto> None)\<rparr>)
                 else
                   (let bestTarget = apply_strategy (targetingStrategy sys) entity targetsInRange;
                        result = map_option te_id bestTarget;
                        sys1 = sys\<lparr>targetCache := (targetCache sys)(cacheKey \<mapsto> result)\<rparr>;
                        sys2 = (if now - lastUpdateTime sys1 \<ge> cacheUpdateInterval sys1
                                then sys1\<lparr>lastUpdateTime := now\<rparr> else sys1)
                    in (result, sys2))))"

text \<open>
  \<open>predictTargetPosition\<close> and \<open>calculateFiringSolution\<close> take a target with an
  optional \<open>velocity\<close>; the time offset may be non-finite.
\<close>

definition predictTargetPosition :: "Vector3 \<Rightarrow> Vector3 option \<Rightarrow> jsnum \<Rightarrow> JSVector3" where
  "predictTargetPosition position velocity timeAhead =
     (case velocity of
        None \<Rightarrow> finite_vec position
      | Some v \<Rightarrow>
          JSVector3 (js_add_scaled (vx position) (vx v) timeAhead)
                    (js_add_scaled (vy position) (vy v) timeAhead)
                    (js_add_scaled (vz position) (vz v) timeAhead))"

definition calculateFiringSolution ::
  "Vector3 \<Rightarrow> Vector3 \<Rightarrow> Vector3 option \<Rightarrow> real \<Rightarrow> JSVector3" where
  "calculateFiringSolution shooterPos position velocity projectileSpeed =
     (case velocity of
        None \<Rightarrow> finite_vec position
      | Some targetVel \<Rightarrow>
          (let relativePos = sub position shooterPos;
               a = lengthSq targetVel - projectileSpeed * projectileSpeed;
               b = 2 * dot targetVel relativePos;
               c = lengthSq relativePos;
               discriminant = b * b - 4 * a * c
           in if discriminant < 0 then finite_vec position
              else
                (let t1 = js_div (- b + sqrt discriminant) (2 * a);
                     t2 = js_div (- b - sqrt discriminant) (2 * a);
                     t = js_min t1 t2
                 in if js_lt_zero t then finite_vec position
                    else predictTargetPosition position velocity t)))"

text \<open>
  What the nearest strategy is specified to select, written independently of
  the loop: index \<open>k\<close> of the list holds a hostile at minimum distance, and
  every hostile before it is strictly farther away.
\<close>

definition is_first_nearest :: "TargetingEntity \<Rightarrow> TargetableEntity list \<Rightarrow> nat \<Rightarrow> bool" where
  "is_first_nearest entity ts k =
     (k < length ts
      \<and> list_all (\<lambda>t. getDistance (tg_position entity) (te_position (ts ! k))
                       \<le> getDistance (tg_position entity) (te_position t)) ts
      \<and> list_all (\<lambda>t. getDistance (tg_position entity) (te_position (ts ! k))
                       < getDistance (tg_position entity) (te_position t)) (take k ts))"

text \<open>Concrete inputs used by the examples below.\<close>

definition example_defender :: TargetingEntity where
  "example_defender =
     \<lparr>tg_id = Lit ''t1'', tg_position = Vector3 0 0 0, tg_range = 5,
      tg_currentTargetId = None\<rparr>"

definition hostile_a :: TargetableEntity where
  "hostile_a =
     \<lparr>te_id = Lit ''a'', te_position = Vector3 1 0 0, te_health = Some 100,
      te_maxHealth = Some 100\<rparr>"

definition hostile_b :: TargetableEntity where
  "hostile_b =
     \<lparr>te_id = Lit ''b'', te_position = Vector3 2 0 0, te_health = Some 100,
      te_maxHealth = Some 100\<rparr>"

definition memo_b :: TargetingSystem where
  "memo_b = (new_TargetingSystem Closest)
              \<lparr>targetCache := [Lit ''t1'' \<mapsto> Some (Lit ''b'')]\<rparr>"

section \<open>Session store (useTowerDefense)\<close>

datatype GamePhase = Menu | Playing | Paused | Ended

datatype EnemyType = Normal | Fast | Heavy | Boss

datatype ParticleType = Explosion | Hit | Death

record Tower =
  tower_id :: ident
  tower_position :: Vector3
  tower_type :: string
  tower_level :: real
  tower_damage :: real
  tower_range :: real
  tower_fireRate :: real
  tower_lastFired :: real
  tower_canFire :: bool
  tower_currentTargetId :: "ident option"
  tower_showRange :: bool

record Enemy =
  enemy_id :: ident
  enemy_position :: Vector3
  enemy_type :: EnemyType
  enemy_health :: real
  enemy_maxHealth :: real
  enemy_speed :: real
  enemy_pathProgress :: real
  enemy_reward :: real

record LaserBeam =
  laser_id :: ident
  laser_start :: Vector3
  laser_end :: Vector3
  laser_color :: string
  laser_damage :: real
  laser_lifetime :: real

record ParticleEffect =
  particle_id :: ident
  particle_position :: Vector3
  particle_type :: ParticleType
  particle_color :: string
  particle_lifetime :: real

text \<open>
  The store.  \<open>laserPool\<close>, \<open>particlePool\<close> and \<open>targetingSystem\<close> are mutable
  objects shared by every snapshot of the store, so the operations below
  always read and write them in the current store.  The store never releases
  a pooled object, so no two live effects share an object and effects are
  kept by value.  \<open>calls\<close> is not a field of the source: it counts the
  \<open>Date.now()\<close>/\<open>Math.random()\<close> readings made so far, which the
  environment answers by position.
\<close>

record TowerDefenseState =
  gamePhase :: GamePhase
  currentWave :: int
  totalWaves :: int
  lives :: int
  score :: real
  money :: real
  gameTime :: real
  waveProgress :: real
  towers :: "Tower list"
  enemies :: "Enemy list"
  laserBeams :: "LaserBeam list"
  particleEffects :: "ParticleEffect list"
  enemiesKilled :: int
  accuracy :: real
  totalShots :: int
  hitShots :: int
  laserPool :: ObjectPool
  particlePool :: ObjectPool
  targetingSystem :: TargetingSystem
  calls :: nat

record Env =
  dateNow :: "nat \<Rightarrow> real"
  random :: "nat \<Rightarrow> real"

definition initial_state :: TowerDefenseState where
  "initial_state =
     \<lparr>gamePhase = Menu, currentWave = 1, totalWaves = 10, lives = 20, score = 0,
      money = 100, gameTime = 0, waveProgress = 0, towers = [], enemies = [],
      laserBeams = [], particleEffects = [], enemiesKilled = 0, accuracy = 0,
      totalShots = 0, hitShots = 0, laserPool = new_ObjectPool 100,
      particlePool = new_ObjectPool 200, targetingSystem = new_TargetingSystem Closest,
      calls = 0\<rparr>"

definition setGamePhase :: "GamePhase \<Rightarrow> TowerDefenseState \<Rightarrow> TowerDefenseState" where
  "setGamePhase phase s = s\<lparr>gamePhase := phase\<rparr>"

definition initializeGame :: "TowerDefenseState \<Rightarrow> TowerDefenseState" where
  "initializeGame s =
     s\<lparr>currentWave := 1, lives := 20, score := 0, money := 100, gameTime := 0,
       waveProgress := 0, towers := [], enemies := [], laserBeams := [],
       particleEffects := [], enemiesKilled := 0, totalShots := 0, hitShots := 0,
       accuracy := 0\<rparr>"

definition startGame :: "TowerDefenseState \<Rightarrow> TowerDefenseState" where
  "startGame s = s\<lparr>gamePhase := Playing\<rparr>"

definition pauseGame :: "TowerDefenseState \<Rightarrow> TowerDefenseState" where
  "pauseGame s = s\<lparr>gamePhase := Paused\<rparr>"

definition resumeGame :: "TowerDefenseState \<Rightarrow> TowerDefenseState" where
  "resumeGame s = s\<lparr>gamePhase := Playing\<rparr>"

definition restartGame :: "TowerDefenseState \<Rightarrow> TowerDefenseState" where
  "restartGame s = (initializeGame s)\<lparr>gamePhase := Playing\<rparr>"

definition nextWave :: "TowerDefenseState \<Rightarrow> TowerDefenseState" where
  "nextWave s = s\<lparr>currentWave := currentWave s + 1, waveProgress := 0, money := money s + 50\<rparr>"

text \<open>The template string \<open>prefix-${Date.now()}-${Math.random()}\<close>.\<close>

definition fresh_id :: "Env \<Rightarrow> string \<Rightarrow> TowerDefenseState \<Rightarrow> ident" where
  "fresh_id env prefix s = Gen prefix (dateNow env (calls s)) (random env (calls s))"

definition placeTower :: "Env \<Rightarrow> Vector3 \<Rightarrow> string \<Rightarrow> TowerDefenseState \<Rightarrow> TowerDefenseState" where
  "placeTower env position type s =
     (let cost = 50
      in if money s \<ge> cost
         then (let newTower =
                     \<lparr>tower_id = fresh_id env ''tower'' s, tower_position = position,
                      tower_type = type, tower_level = 1, tower_damage = 25, tower_range = 8,
                      tower_fireRate = 2, tower_lastFired = 0, tower_canFire = True,
                      tower_currentTargetId = None, tower_showRange = False\<rparr>
               in s\<lparr>towers := towers s @ [newTower], money := money s - cost,
                    calls := Suc (calls s)\<rparr>)
         else s)"

fun enemyConfig :: "EnemyType \<Rightarrow> real \<times> real \<times> real" where
  "enemyConfig Normal = (100, 0.02, 10)"
| "enemyConfig Fast = (60, 0.04, 15)"
| "enemyConfig Heavy = (200, 0.01, 25)"
| "enemyConfig Boss = (500, 0.015, 100)"

definition spawnEnemy :: "Env \<Rightarrow> EnemyType \<Rightarrow> TowerDefenseState \<Rightarrow> TowerDefenseState" where
  "spawnEnemy env type s =
     (case enemyConfig type of
        (health, speed, reward) \<Rightarrow>
          (let newEnemy =
                 \<lparr>enemy_id = fresh_id env ''enemy'' s, enemy_position = Vector3 0 1 (- 25),
                  enemy_type = type, enemy_health = health, enemy_maxHealth = health,
                  enemy_speed = speed, enemy_pathProgress = 0, enemy_reward = reward\<rparr>
           in s\<lparr>enemies := enemies s @ [newEnemy], calls := Suc (calls s)\<rparr>))"

definition addParticleEffect ::
  "Env \<Rightarrow> Vector3 \<Rightarrow> ParticleType \<Rightarrow> string \<Rightarrow> real \<Rightarrow> TowerDefenseState
     \<Rightarrow> TowerDefenseState" where
  "addParticleEffect env position type color lifetime s =
     (let pool = snd (acquire (particlePool s));
          particle =
            \<lparr>particle_id = fresh_id env ''particle'' s, particle_position = position,
             particle_type = type, particle_color = color, particle_lifetime = lifetime\<rparr>
      in s\<lparr>particlePool := pool, particleEffects := particleEffects s @ [particle],
           calls := Suc (calls s)\<rparr>)"

definition removeEnemy :: "ident \<Rightarrow> TowerDefenseState \<Rightarrow> TowerDefenseState" where
  "removeEnemy enemyId s = s\<lparr>enemies := filter (\<lambda>e. enemy_id e \<noteq> enemyId) (enemies s)\<rparr>"

definition damageEnemy :: "Env \<Rightarrow> ident \<Rightarrow> real \<Rightarrow> TowerDefenseState \<Rightarrow> TowerDefenseState" where
  "damageEnemy env enemyId damage s =
     (case find (\<lambda>e. enemy_id e = enemyId) (enemies s) of
        None \<Rightarrow> s
      | Some enemy \<Rightarrow>
          (let newHealth = max 0 (enemy_health enemy - damage)
           in if newHealth \<le> 0
              then (let s1 = removeEnemy enemyId s;
                        s2 = addParticleEffect env (enemy_position enemy) Death ''#ff4444'' 1 s1
                    in s2\<lparr>score := score s2 + enemy_reward enemy,
                          money := money s2 + enemy_reward enemy,
                          enemiesKilled := enemiesKilled s2 + 1,
                          hitShots := hitShots s2 + 1\<rparr>)
              else (let s1 = s\<lparr>enemies :=
                                   map (\<lambda>e. if enemy_id e = enemyId
                                            then e\<lparr>enemy_health := newHealth\<rparr> else e)
                                       (enemies s),
                                 hitShots := hitShots s + 1\<rparr>
                    in addParticleEffect env (enemy_position enemy) Hit ''#ffaa00'' (1 / 2) s1)))"

definition fireLaser :: "Env \<Rightarrow> ident \<Rightarrow> ident \<Rightarrow> TowerDefenseState \<Rightarrow> TowerDefenseState" where
  "fireLaser env towerId targetId s =
     (case (find (\<lambda>t. tower_id t = towerId) (towers s),
            find (\<lambda>e. enemy_id e = targetId) (enemies s)) of
        (Some tower, Some target) \<Rightarrow>
          (let pool = snd (acquire (laserPool s));
               laser =
                 \<lparr>laser_id = fresh_id env ''laser'' s,
                  laser_start = Vector3 (vx (tower_position tower))
                                        (vy (tower_position tower) + 3 / 2)
                                        (vz (tower_position tower)),
                  laser_end = enemy_position target, laser_color = ''#ff0000'',
                  laser_damage = tower_damage tower, laser_lifetime = 1 / 10\<rparr>;
               s1 = s\<lparr>laserPool := pool, laserBeams := laserBeams s @ [laser],
                       totalShots := totalShots s + 1, calls := Suc (calls s)\<rparr>
           in damageEnemy env targetId (tower_damage tower) s1)
      | _ \<Rightarrow> s)"

definition updateTowerTarget ::
  "ident \<Rightarrow> ident option \<Rightarrow> TowerDefenseState \<Rightarrow> TowerDefenseState" where
  "updateTowerTarget towerId targetId s =
     s\<lparr>towers := map (\<lambda>tower. if tower_id tower = towerId
                              then tower\<lparr>tower_currentTargetId := targetId\<rparr> else tower)
                     (towers s)\<rparr>"

text \<open>
  A tower is passed to the resolver as a \<open>TargetingEntity\<close> and the hostiles
  as \<open>TargetableEntity\<close> values (structural typing in the source).
\<close>

definition tower_entity :: "Tower \<Rightarrow> TargetingEntity" where
  "tower_entity t =
     \<lparr>tg_id = tower_id t, tg_position = tower_position t, tg_range = tower_range t,
      tg_currentTargetId = tower_currentTargetId t\<rparr>"

definition enemy_entity :: "Enemy \<Rightarrow> TargetableEntity" where
  "enemy_entity e =
     \<lparr>te_id = enemy_id e, te_position = enemy_position e, te_health = Some (enemy_health e),
      te_maxHealth = Some (enemy_maxHealth e)\<rparr>"

text \<open>
  The remainder operator \<open>x % y\<close> (truncated division, sign of the dividend)
  for \<open>y \<noteq> 0\<close>.
\<close>

definition js_rem :: "real \<Rightarrow> real \<Rightarrow> real" where
  "js_rem x y = x - y * of_int (if x / y \<ge> 0 then \<lfloor>x / y\<rfloor> else \<lceil>x / y\<rceil>)"

text \<open>
  One iteration of \<open>state.towers.map\<close> in \<open>updateGame\<close>.  \<open>state\<close> is the
  snapshot taken by \<open>get()\<close> at the start of the tick; \<open>cur\<close> is the store as
  the nested \<open>set\<close> calls have left it.  \<open>1 / fireRate\<close> is \<open>Infinity\<close> for a
  zero fire rate, which no elapsed time reaches.
\<close>

fun tower_step ::
  "Env \<Rightarrow> TowerDefenseState \<Rightarrow> real \<Rightarrow> Tower list \<times> TowerDefenseState \<Rightarrow> Tower
     \<Rightarrow> Tower list \<times> TowerDefenseState" where
  "tower_step env state newGameTime (acc, cur) tower =
     (let canFire = (if tower_fireRate tower = 0 then False
                     else newGameTime - tower_lastFired tower \<ge> 1 / tower_fireRate tower);
          kept = (if truthy (tower_currentTargetId tower)
                  then (case find (\<lambda>e. Some (enemy_id e) = tower_currentTargetId tower)
                               (enemies state) of
                          None \<Rightarrow> None
                        | Some target \<Rightarrow>
                            if getDistance (tower_position tower) (enemy_position target)
                                 > tower_range tower
                            then None else tower_currentTargetId tower)
                  else tower_currentTargetId tower);
          found = (if \<not> truthy kept
                   then findBestTarget (dateNow env (calls cur)) (targetingSystem cur)
                          (tower_entity tower) (map enemy_entity (enemies state))
                   else (kept, targetingSystem cur));
          currentTargetId = fst found;
          cur1 = (if \<not> truthy kept
                  then cur\<lparr>targetingSystem := snd found, calls := Suc (calls cur)\<rparr>
                  else cur)
      in case (if canFire \<and> truthy currentTargetId then currentTargetId else None) of
           Some targetId \<Rightarrow>
             (acc @ [tower\<lparr>tower_currentTargetId := currentTargetId,
                           tower_lastFired := newGameTime, tower_canFire := False\<rparr>],
              fireLaser env (tower_id tower) targetId cur1)
         | None \<Rightarrow>
             (acc @ [tower\<lparr>tower_currentTargetId := currentTargetId,
                           tower_canFire := canFire\<rparr>],
              cur1))"

text \<open>One iteration of \<open>state.enemies.map\<close>; a breach yields \<open>null\<close>, dropped by the filter.\<close>

fun enemy_step ::
  "real \<Rightarrow> Enemy list \<times> TowerDefenseState \<Rightarrow> Enemy \<Rightarrow> Enemy list \<times> TowerDefenseState" where
  "enemy_step deltaTime (acc, cur) enemy =
     (let newProgress = enemy_pathProgress enemy + enemy_speed enemy * deltaTime
      in if newProgress \<ge> 1
         then (acc, cur\<lparr>lives := lives cur - 1\<rparr>)
         else (acc @ [enemy\<lparr>enemy_pathProgress := newProgress,
                            enemy_position :=
                              Vector3 (vx (enemy_position enemy)) (vy (enemy_position enemy))
                                      (- 25 + newProgress * 50)\<rparr>],
               cur))"

definition updateGame :: "Env \<Rightarrow> real \<Rightarrow> TowerDefenseState \<Rightarrow> TowerDefenseState" where
  "updateGame env deltaTime state =
     (if gamePhase state \<noteq> Playing then state
      else
        (let newGameTime = gameTime state + deltaTime;
             waveTimeLimit = 30;
             newWaveProgress = min (js_rem newGameTime waveTimeLimit / waveTimeLimit) 1;
             s0 = state\<lparr>calls := Suc (calls state)\<rparr>;
             s1 = (if random env (calls state) < 2 / 100 \<and> length (enemies state) < 10
                   then spawnEnemy env Normal s0 else s0);
             towersRun = foldl (tower_step env state newGameTime) ([], s1) (towers state);
             updatedTowers = fst towersRun;
             enemiesRun = foldl (enemy_step deltaTime) ([], snd towersRun) (enemies state);
             updatedEnemies = fst enemiesRun;
             s3 = snd enemiesRun;
             updatedLasers =
               filter (\<lambda>laser. laser_lifetime laser > 0)
                 (map (\<lambda>laser. laser\<lparr>laser_lifetime := laser_lifetime laser - deltaTime\<rparr>)
                      (laserBeams state));
             updatedParticles =
               filter (\<lambda>particle. particle_lifetime particle > 0)
                 (map (\<lambda>particle.
                         particle\<lparr>particle_lifetime := particle_lifetime particle - deltaTime\<rparr>)
                      (particleEffects state));
             s4 = (if lives state \<le> 0 then s3\<lparr>gamePhase := Ended\<rparr> else s3);
             s5 = (if newWaveProgress \<ge> 1 \<and> length updatedEnemies = 0
                   then (if currentWave state \<ge> totalWaves state
                         then s4\<lparr>gamePhase := Ended\<rparr> else s4)
                   else s4)
         in s5\<lparr>gameTime := newGameTime, waveProgress := newWaveProgress,
               towers := updatedTowers, enemies := updatedEnemies,
               laserBeams := updatedLasers, particleEffects := updatedParticles,
               accuracy := (if totalShots state > 0
                            then real_of_int (hitShots state) / real_of_int (totalShots state)
                            else 0)\<rparr>))"

text \<open>The armor helpers of enemyData.ts; \<open>damageEnemy\<close> does not call them.\<close>

definition calculateArmorReduction :: "real \<Rightarrow> real \<Rightarrow> jsnum" where
  "calculateArmorReduction damage armor =
     (case js_div armor (armor + 100) of
        Fin reduction \<Rightarrow> Fin (max 1 (damage * (1 - reduction)))
      | PosInf \<Rightarrow> (if damage = 0 then NaN else if damage > 0 then Fin 1 else PosInf)
      | NegInf \<Rightarrow> (if damage = 0 then NaN else if damage > 0 then PosInf else Fin 1)
      | NaN \<Rightarrow> NaN)"

datatype DamageType = Physical | Magical | Freeze

text \<open>\<open>resistances\<close> is optional, and so is each of its entries; a zero entry is falsy.\<close>

definition applyResistance :: "real \<Rightarrow> DamageType \<Rightarrow> (DamageType \<rightharpoonup> real) option \<Rightarrow> real" where
  "applyResistance damage damageType resistances =
     (case resistances of
        None \<Rightarrow> damage
      | Some table \<Rightarrow>
          (case table damageType of
             None \<Rightarrow> damage
           | Some r \<Rightarrow> if r = 0 then damage else damage * (1 - r)))"

text \<open>Concrete sessions used by the examples below.\<close>

definition example_env :: Env where
  "example_env = \<lparr>dateNow = (\<lambda>n. 1000), random = (\<lambda>n. 1 / 2)\<rparr>"

definition walker :: "string \<Rightarrow> real \<Rightarrow> Enemy" where
  "walker name progress =
     \<lparr>enemy_id = Lit name, enemy_position = Vector3 0 1 (- 25 + progress * 50),
      enemy_type = Normal, enemy_health = 100, enemy_maxHealth = 100,
      enemy_speed = 2 / 100, enemy_pathProgress = progress, enemy_reward = 10\<rparr>"

definition last_life :: TowerDefenseState where
  "last_life = initial_state\<lparr>gamePhase := Playing, lives := 1,
                              enemies := [walker ''e1'' (99 / 100)]\<rparr>"

definition two_at_the_gate :: TowerDefenseState where
  "two_at_the_gate = initial_state\<lparr>gamePhase := Playing, lives := 1,
                                    enemies := [walker ''e1'' (99 / 100),
                                                walker ''e2'' (99 / 100)]\<rparr>"

definition one_hostile :: TowerDefenseState where
  "one_hostile = initial_state\<lparr>gamePhase := Playing, enemies := [walker ''e1'' (1 / 2)]\<rparr>"

text \<open>The breach test of the hostile loop, named for the statements below.\<close>

definition breaches :: "real \<Rightarrow> Enemy \<Rightarrow> bool" where
  "breaches deltaTime enemy =
     (enemy_pathProgress enemy + enemy_speed enemy * deltaTime \<ge> 1)"

text \<open>The actions of the store, and sessions as sequences of them from the initial state.\<close>

datatype action =
    SetGamePhase GamePhase | InitializeGame | StartGame | PauseGame | ResumeGame
  | RestartGame | UpdateGame real | NextWave | PlaceTower Vector3 string
  | SpawnEnemy EnemyType | FireLaser ident ident | DamageEnemy ident real
  | RemoveEnemy ident | UpdateTowerTarget ident "ident option"
  | AddParticleEffect Vector3 ParticleType string real

fun perform :: "Env \<Rightarrow> TowerDefenseState \<Rightarrow> action \<Rightarrow> TowerDefenseState" where
  "perform env s (SetGamePhase phase) = setGamePhase phase s"
| "perform env s InitializeGame = initializeGame s"
| "perform env s StartGame = startGame s"
| "perform env s PauseGame = pauseGame s"
| "perform env s ResumeGame = resumeGame s"
| "perform env s RestartGame = restartGame s"
| "perform env s (UpdateGame deltaTime) = updateGame env deltaTime s"
| "perform env s NextWave = nextWave s"
| "perform env s (PlaceTower position type) = placeTower env position type s"
| "perform env s (SpawnEnemy type) = spawnEnemy env type s"
| "perform env s (FireLaser towerId targetId) = fireLaser env towerId targetId s"
| "perform env s (DamageEnemy enemyId damage) = damageEnemy env enemyId damage s"
| "perform env s (RemoveEnemy enemyId) = removeEnemy enemyId s"
| "perform env s (UpdateTowerTarget towerId targetId) = updateTowerTarget towerId targetId s"
| "perform env s (AddParticleEffect position type color lifetime) =
     addParticleEffect env position type color lifetime s"

definition run :: "Env \<Rightarrow> action list \<Rightarrow> TowerDefenseState" where
  "run env acts = foldl (perform env) initial_state acts"

section \<open>Card economy (useCards)\<close>

datatype CardType = TowerCard | SpellCard | UpgradeCard

datatype Rarity = Common | Uncommon | Rare | Epic | Legendary

record CardStats =
  stat_damage :: "real option"
  stat_range :: "real option"
  stat_fireRate :: "real option"
  stat_areaOfEffect :: "real option"

record Card =
  card_id :: ident
  card_name :: string
  card_description :: string
  card_type :: CardType
  card_cost :: real
  card_stats :: "CardStats option"
  card_effect :: "string option"
  card_rarity :: Rarity

record CardsState =
  hand :: "Card list"
  deck :: "Card list"
  discardPile :: "Card list"
  maxHandSize :: nat

text \<open>
  The card store reads and writes the session store through
  \<open>useTowerDefense.getState()\<close> and \<open>setState\<close>, so its operations act on the
  pair of both stores.  \<open>shuffle\<close> stands for the order in which
  \<open>sort(() => Math.random() - 0.5)\<close> leaves its argument.
\<close>

definition shuffleDeck :: "(Card list \<Rightarrow> Card list) \<Rightarrow> CardsState \<Rightarrow> CardsState" where
  "shuffleDeck shuffle c = c\<lparr>deck := shuffle (deck c)\<rparr>"

definition removeCardFromHand :: "ident \<Rightarrow> CardsState \<Rightarrow> CardsState" where
  "removeCardFromHand cardId c = c\<lparr>hand := filter (\<lambda>cd. card_id cd \<noteq> cardId) (hand c)\<rparr>"

definition discardCard :: "ident \<Rightarrow> CardsState \<Rightarrow> CardsState" where
  "discardCard cardId c =
     (case find (\<lambda>cd. card_id cd = cardId) (hand c) of
        None \<Rightarrow> c
      | Some theCard \<Rightarrow>
          c\<lparr>hand := filter (\<lambda>cd. card_id cd \<noteq> cardId) (hand c),
            discardPile := discardPile c @ [theCard]\<rparr>)"

text \<open>
  \<open>drawCard\<close>.  When the deck is empty the discard pile is copied into
  \<open>currentDeck\<close>, \<open>shuffleDeck\<close> is called on the store (whose deck is the
  empty one), and the store's deck is then set to \<open>currentDeck\<close>.
\<close>

definition drawCard ::
  "(Card list \<Rightarrow> Card list) \<Rightarrow> CardsState \<times> TowerDefenseState
     \<Rightarrow> bool \<times> CardsState \<times> TowerDefenseState" where
  "drawCard shuffle w =
     (let c = fst w; g = snd w
      in if length (hand c) \<ge> maxHandSize c then (False, c, g)
         else if money g < 10 then (False, c, g)
         else
           (case deck c of
              [] \<Rightarrow>
                (case discardPile c of
                   [] \<Rightarrow> (False, c, g)
                 | cardToDraw # newDeck \<Rightarrow>
                     (let c1 = (shuffleDeck shuffle c)\<lparr>deck := discardPile c, discardPile := []\<rparr>
                      in (True, c1\<lparr>hand := hand c @ [cardToDraw], deck := newDeck\<rparr>,
                          g\<lparr>money := money g - 10\<rparr>)))
            | cardToDraw # newDeck \<Rightarrow>
                (True, c\<lparr>hand := hand c @ [cardToDraw], deck := newDeck\<rparr>,
                 g\<lparr>money := money g - 10\<rparr>)))"

definition tower_positions :: "Vector3 list" where
  "tower_positions =
     [Vector3 (- 5) 0 0, Vector3 5 0 0, Vector3 (- 5) 0 10, Vector3 5 0 10,
      Vector3 (- 5) 0 (- 10), Vector3 5 0 (- 10)]"

definition playTowerCard ::
  "Env \<Rightarrow> Card \<Rightarrow> TowerDefenseState \<Rightarrow> bool \<times> TowerDefenseState" where
  "playTowerCard env theCard g =
     (let availablePositions =
            filter (\<lambda>pos. \<not> list_ex (\<lambda>tower. distanceTo (tower_position tower) pos < 2)
                                       (towers g))
                   tower_positions
      in case availablePositions of
           [] \<Rightarrow> (False, g)
         | position # _ \<Rightarrow> (True, placeTower env position (card_name theCard) g))"

text \<open>\<open>card.stats?.field || d\<close>: the default replaces a missing or zero value.\<close>

definition stat_or :: "Card \<Rightarrow> (CardStats \<Rightarrow> real option) \<Rightarrow> real \<Rightarrow> real" where
  "stat_or theCard field d =
     (case card_stats theCard of
        None \<Rightarrow> d
      | Some stats \<Rightarrow> (case field stats of None \<Rightarrow> d | Some v \<Rightarrow> if v = 0 then d else v))"

definition playSpellCard ::
  "Env \<Rightarrow> Card \<Rightarrow> TowerDefenseState \<Rightarrow> bool \<times> TowerDefenseState" where
  "playSpellCard env theCard g =
     (if card_effect theCard = Some ''damage_all''
      then (True, foldl (\<lambda>cur enemy. damageEnemy env (enemy_id enemy)
                                        (stat_or theCard stat_damage 50) cur)
                        g (enemies g))
      else if card_effect theCard = Some ''slow_all''
      then (True, g\<lparr>enemies := map (\<lambda>enemy. enemy\<lparr>enemy_speed := enemy_speed enemy * (1 / 2)\<rparr>)
                                   (enemies g)\<rparr>)
      else (False, g))"

definition playUpgradeCard :: "Card \<Rightarrow> TowerDefenseState \<Rightarrow> bool \<times> TowerDefenseState" where
  "playUpgradeCard theCard g =
     (case towers g of
        [] \<Rightarrow> (False, g)
      | towerToUpgrade # _ \<Rightarrow>
          (True,
           g\<lparr>towers :=
               map (\<lambda>tower.
                      if tower_id tower = tower_id towerToUpgrade
                      then tower\<lparr>tower_level := tower_level tower + 1,
                                 tower_damage := tower_damage tower + stat_or theCard stat_damage 10,
                                 tower_range := tower_range tower + stat_or theCard stat_range 1,
                                 tower_fireRate :=
                                   tower_fireRate tower + stat_or theCard stat_fireRate (1 / 2)\<rparr>
                      else tower)
                   (towers g)\<rparr>))"

definition playCard ::
  "Env \<Rightarrow> ident \<Rightarrow> CardsState \<times> TowerDefenseState \<Rightarrow> bool \<times> CardsState \<times> TowerDefenseState" where
  "playCard env cardId w =
     (let c = fst w; g = snd w
      in case find (\<lambda>cd. card_id cd = cardId) (hand c) of
           None \<Rightarrow> (False, c, g)
         | Some theCard \<Rightarrow>
             if money g < card_cost theCard then (False, c, g)
             else
               (let played = (case card_type theCard of
                                TowerCard \<Rightarrow> playTowerCard env theCard g
                              | SpellCard \<Rightarrow> playSpellCard env theCard g
                              | UpgradeCard \<Rightarrow> playUpgradeCard theCard g);
                    success = fst played;
                    g1 = snd played
                in if success
                   then (True, removeCardFromHand cardId c,
                         g1\<lparr>money := money g1 - card_cost theCard\<rparr>)
                   else (False, c, g1)))"

definition card_count :: "CardsState \<Rightarrow> nat" where
  "card_count c = length (hand c) + length (deck c) + length (discardPile c)"

text \<open>The \<open>basicTower\<close> entry of cardData.ts as a card in hand, and sessions holding it.\<close>

definition basicTower :: "string \<Rightarrow> Card" where
  "basicTower name =
     \<lparr>card_id = Lit name, card_name = ''Basic Tower'',
      card_description =
        ''A simple tower that fires at enemies. Good damage and range for the cost.'',
      card_type = TowerCard, card_cost = 50,
      card_stats = Some \<lparr>stat_damage = Some 25, stat_range = Some 8, stat_fireRate = Some 2,
                         stat_areaOfEffect = None\<rparr>,
      card_effect = None, card_rarity = Common\<rparr>"

definition one_card_hand :: CardsState where
  "one_card_hand = \<lparr>hand = [basicTower ''c1''], deck = [], discardPile = [], maxHandSize = 7\<rparr>"

definition recycling_cards :: CardsState where
  "recycling_cards =
     \<lparr>hand = [], deck = [], discardPile = [basicTower ''c1'', basicTower ''c2''],
      maxHandSize = 7\<rparr>"

section \<open>Pool: results\<close>

lemma maxSize_pool_step: "maxSize (pool_step p x) = maxSize p"
  by (cases x) (simp_all add: acquire_def release_def Let_def)

lemma available_pool_step:
  assumes "int (length (available p)) \<le> max 0 (maxSize p)"
  shows "int (length (available (pool_step p x))) \<le> max 0 (maxSize p)"
proof (cases x)
  case Acquire
  have "length (butlast (available p)) \<le> length (available p)"
    by simp
  then have "int (length (butlast (available p))) \<le> int (length (available p))"
    by (simp only: of_nat_le_iff)
  with assms have "int (length (butlast (available p))) \<le> max 0 (maxSize p)"
    by linarith
  with Acquire assms show ?thesis
    by (simp add: acquire_def Let_def del: length_butlast)
next
  case (Release obj)
  with assms show ?thesis
    by (auto simp add: release_def Let_def)
qed

lemma available_foldl:
  "int (length (available p)) \<le> max 0 (maxSize p) \<Longrightarrow>
   int (length (available (foldl pool_step p xs))) \<le> max 0 (maxSize p)"
proof (induction xs arbitrary: p)
  case Nil
  then show ?case by simp
next
  case (Cons x xs)
  have "int (length (available (pool_step p x))) \<le> max 0 (maxSize (pool_step p x))"
    using available_pool_step [OF Cons.prems] by (simp add: maxSize_pool_step)
  from Cons.IH [OF this] show ?case by (simp add: maxSize_pool_step)
qed

text \<open>
  C3 (as stated): after any sequence of acquire and release calls,
  \<open>available.length + inUse.size\<close> never exceeds \<open>maxSize\<close>.  This fails: a pool
  of capacity 1 that is asked for two objects allocates the second one, so two
  objects are leased.
\<close>

theorem pool_capacity_counterexample:
  "\<not> pool_total (pool_run [Acquire, Acquire] (new_ObjectPool 1))
       \<le> maxSize (pool_run [Acquire, Acquire] (new_ObjectPool 1))"
  by (simp add: pool_total_def pool_run_def new_ObjectPool_def acquire_def set_add_def)

text \<open>
  C3 (amended): the capacity bounds the free list only.  For a pool constructed
  with capacity \<open>m\<close>, after every finite sequence of acquire and release calls
  \<open>available.length\<close> is at most \<open>m\<close> (at most 0 for a negative \<open>m\<close>).
\<close>

theorem pool_available_bounded:
  "int (length (available (pool_run ops (new_ObjectPool m)))) \<le> max 0 m"
proof -
  have "int (length (available (new_ObjectPool m))) \<le> max 0 (maxSize (new_ObjectPool m))"
    by (simp add: new_ObjectPool_def Let_def)
  from available_foldl [OF this] show ?thesis
    by (simp add: pool_run_def new_ObjectPool_def Let_def)
qed

section \<open>Targeting: results\<close>

lemma closest_foldl:
  "ts \<noteq> [] \<Longrightarrow>
   \<exists>k. is_first_nearest e ts k \<and>
       foldl (closest_step e) (None, None) ts
         = (Some (ts ! k), Some (getDistance (tg_position e) (te_position (ts ! k))))"
proof (induction ts rule: rev_induct)
  case Nil
  then show ?case by simp
next
  case (snoc x xs)
  let ?D = "\<lambda>t. getDistance (tg_position e) (te_position t)"
  show ?case
  proof (cases "xs = []")
    case True
    have "is_first_nearest e [x] 0"
      by (simp add: is_first_nearest_def)
    moreover have "foldl (closest_step e) (None, None) [x] = (Some x, Some (?D x))"
      by (simp add: closest_step_def)
    ultimately show ?thesis using True by auto
  next
    case False
    from snoc.IH [OF False] obtain k where
      near: "is_first_nearest e xs k" and
      run: "foldl (closest_step e) (None, None) xs = (Some (xs ! k), Some (?D (xs ! k)))"
      by blast
    from near have k: "k < length xs"
      and le: "\<And>t. t \<in> set xs \<Longrightarrow> ?D (xs ! k) \<le> ?D t"
      and lt: "\<And>t. t \<in> set (take k xs) \<Longrightarrow> ?D (xs ! k) < ?D t"
      by (auto simp add: is_first_nearest_def list_all_iff)
    show ?thesis
    proof (cases "?D x < ?D (xs ! k)")
      case True
      have "is_first_nearest e (xs @ [x]) (length xs)"
        using True le by (fastforce simp add: is_first_nearest_def list_all_iff)
      moreover have "foldl (closest_step e) (None, None) (xs @ [x]) = (Some x, Some (?D x))"
        using True run by (simp add: closest_step_def)
      ultimately show ?thesis
        by (metis nth_append_length)
    next
      case False
      have "is_first_nearest e (xs @ [x]) k"
        using False le lt k by (auto simp add: is_first_nearest_def list_all_iff nth_append)
      moreover have "foldl (closest_step e) (None, None) (xs @ [x])
                       = (Some (xs ! k), Some (?D (xs ! k)))"
        using False run by (simp add: closest_step_def)
      ultimately show ?thesis using k
        by (metis nth_append)
    qed
  qed
qed

lemma findClosestTarget_nearest:
  "ts \<noteq> [] \<Longrightarrow> \<exists>k. is_first_nearest e ts k \<and> findClosestTarget e ts = Some (ts ! k)"
  using closest_foldl [of ts e] by (auto simp add: findClosestTarget_def)

lemma cached_target_in_range:
  assumes "cached_target now sys e ts = Some c"
  shows "\<exists>t. t \<in> set ts \<and> te_id t = c \<and> isInRange e t"
proof -
  from assms obtain t where f: "find (\<lambda>t. te_id t = c) ts = Some t" and r: "isInRange e t"
    by (auto simp add: cached_target_def split: if_splits option.splits)
  from f have "t \<in> set ts" "te_id t = c"
    by (auto simp add: find_Some_iff)
  with r show ?thesis by blast
qed

lemma cached_target_is_cached:
  "cached_target now sys e ts = Some c \<Longrightarrow> targetCache sys (tg_id e) = Some (Some c)"
  by (auto simp add: cached_target_def split: if_splits option.splits)

lemma findBestTarget_miss:
  assumes "cached_target now sys e ts = None"
  shows "fst (findBestTarget now sys e ts)
           = (if filter (isInRange e) ts = [] then None
              else map_option te_id
                     (apply_strategy (targetingStrategy sys) e (filter (isInRange e) ts)))"
    and "targetingStrategy (snd (findBestTarget now sys e ts)) = targetingStrategy sys"
    and "targetCache (snd (findBestTarget now sys e ts)) (tg_id e)
           = Some (fst (findBestTarget now sys e ts))"
  using assms by (simp_all add: findBestTarget_def Let_def)

lemma findBestTarget_hit:
  "cached_target now sys e ts = Some c \<Longrightarrow> findBestTarget now sys e ts = (Some c, sys)"
  by (simp add: findBestTarget_def)

lemma findBestTarget_repeat:
  assumes "cached_target now sys e ts = None"
  shows "fst (findBestTarget now' (snd (findBestTarget now sys e ts)) e ts)
           = fst (findBestTarget now sys e ts)"
proof (cases "cached_target now' (snd (findBestTarget now sys e ts)) e ts")
  case None
  show ?thesis
    by (simp add: findBestTarget_miss(1) [OF None] findBestTarget_miss(1) [OF assms]
        findBestTarget_miss(2) [OF assms])
next
  case (Some c)
  from cached_target_is_cached [OF Some] findBestTarget_miss(3) [OF assms]
  have "fst (findBestTarget now sys e ts) = Some c" by simp
  then show ?thesis by (simp add: findBestTarget_hit [OF Some])
qed

text \<open>
  C5 (as stated): under the nearest strategy findBestTarget always returns the
  in-range hostile at minimum distance.  This fails when the memo is fresh:
  with hostile \<open>b\<close> memoized for the defender, the call returns \<open>b\<close> although
  \<open>a\<close> is in range and strictly nearer.
\<close>

theorem findBestTarget_memo_counterexample:
  "fst (findBestTarget 50 memo_b example_defender [hostile_a, hostile_b]) = Some (Lit ''b'')
   \<and> isInRange example_defender hostile_a
   \<and> getDistance (tg_position example_defender) (te_position hostile_a)
       < getDistance (tg_position example_defender) (te_position hostile_b)"
  by (simp add: findBestTarget_def cached_target_def memo_b_def new_TargetingSystem_def
      example_defender_def hostile_a_def hostile_b_def isInRange_def getDistance_def
      distanceTo_def truthy_def)

text \<open>
  C5 (amended): under the nearest strategy findBestTarget returns null exactly
  when no hostile is within range.  When the memo is not used (it is stale,
  holds no id for the defender, or its id is absent from the list or out of
  range) the result is the id of the in-range hostile at minimum distance,
  the earliest in list order among equally distant ones, and a second call on
  the same inputs returns the same id whatever the time of that call.  When
  the memo is used, the memoized id is returned: it names an in-range hostile
  of the list, not necessarily the nearest.
\<close>

theorem findBestTarget_closest:
  assumes "targetingStrategy sys = Closest"
  shows "((fst (findBestTarget now sys e ts) = None) = (filter (isInRange e) ts = []))
    \<and> (cached_target now sys e ts = None \<longrightarrow> filter (isInRange e) ts \<noteq> [] \<longrightarrow>
         (\<exists>k. is_first_nearest e (filter (isInRange e) ts) k
              \<and> fst (findBestTarget now sys e ts)
                  = Some (te_id (filter (isInRange e) ts ! k))))
    \<and> (cached_target now sys e ts = None \<longrightarrow>
         fst (findBestTarget now' (snd (findBestTarget now sys e ts)) e ts)
           = fst (findBestTarget now sys e ts))
    \<and> (\<forall>c. cached_target now sys e ts = Some c \<longrightarrow>
         fst (findBestTarget now sys e ts) = Some c
         \<and> (\<exists>t. t \<in> set ts \<and> te_id t = c \<and> isInRange e t))"
proof (cases "cached_target now sys e ts")
  case None
  let ?R = "filter (isInRange e) ts"
  have res: "fst (findBestTarget now sys e ts)
               = (if ?R = [] then None else map_option te_id (findClosestTarget e ?R))"
    using findBestTarget_miss(1) [OF None] assms by (simp add: apply_strategy_def)
  have near: "?R \<noteq> [] \<Longrightarrow>
      \<exists>k. is_first_nearest e ?R k \<and> fst (findBestTarget now sys e ts) = Some (te_id (?R ! k))"
    using findClosestTarget_nearest [of ?R e] res by auto
  have null: "(fst (findBestTarget now sys e ts) = None) = (?R = [])"
    using near res by (cases "?R = []") auto
  show ?thesis
    using None null near findBestTarget_repeat [OF None] by simp
next
  case (Some c)
  from cached_target_in_range [OF Some] obtain t where
    t: "t \<in> set ts" "te_id t = c" "isInRange e t" by blast
  then have "filter (isInRange e) ts \<noteq> []"
    by (auto simp add: filter_empty_conv)
  with Some t show ?thesis
    by (auto simp add: findBestTarget_hit [OF Some])
qed

theorem findBestTarget_closest_witness:
  "targetingStrategy (new_TargetingSystem Closest) = Closest
   \<and> cached_target 50 (new_TargetingSystem Closest) example_defender [hostile_b, hostile_a] = None
   \<and> filter (isInRange example_defender) [hostile_b, hostile_a] \<noteq> []
   \<and> fst (findBestTarget 50 (new_TargetingSystem Closest) example_defender
            [hostile_b, hostile_a]) \<noteq> None
   \<and> (\<exists>k. is_first_nearest example_defender
             (filter (isInRange example_defender) [hostile_b, hostile_a]) k
          \<and> fst (findBestTarget 50 (new_TargetingSystem Closest) example_defender
                   [hostile_b, hostile_a])
              = Some (te_id (filter (isInRange example_defender) [hostile_b, hostile_a] ! k)))
   \<and> targetingStrategy memo_b = Closest
   \<and> cached_target 50 memo_b example_defender [hostile_a, hostile_b] = Some (Lit ''b'')
   \<and> fst (findBestTarget 50 memo_b example_defender [hostile_a, hostile_b]) = Some (Lit ''b'')"
proof -
  have s1: "targetingStrategy (new_TargetingSystem Closest) = Closest"
    by (simp add: new_TargetingSystem_def)
  have m1: "cached_target 50 (new_TargetingSystem Closest) example_defender
              [hostile_b, hostile_a] = None"
    by (simp add: cached_target_def new_TargetingSystem_def)
  have r1: "filter (isInRange example_defender) [hostile_b, hostile_a] \<noteq> []"
    by (simp add: example_defender_def hostile_a_def hostile_b_def isInRange_def
        getDistance_def distanceTo_def)
  have s2: "targetingStrategy memo_b = Closest"
    by (simp add: memo_b_def new_TargetingSystem_def)
  have m2: "cached_target 50 memo_b example_defender [hostile_a, hostile_b] = Some (Lit ''b'')"
    by (simp add: cached_target_def memo_b_def new_TargetingSystem_def example_defender_def
        hostile_a_def hostile_b_def isInRange_def getDistance_def distanceTo_def truthy_def)
  show ?thesis
    using findBestTarget_closest [OF s1, of 50 example_defender "[hostile_b, hostile_a]"]
      findBestTarget_closest [OF s2, of 50 example_defender "[hostile_a, hostile_b]"]
      s1 m1 r1 s2 m2
    by simp
qed

lemma firing_solution_equal_speed:
  assumes "lengthSq v = s * s"
  shows "calculateFiringSolution p pos (Some v) s = JSVector3 NaN NaN NaN"
proof -
  define b where "b = 2 * dot v (sub pos p)"
  define c where "c = lengthSq (sub pos p)"
  have "js_min (js_div (- b + \<bar>b\<bar>) 0) (js_div (- b - \<bar>b\<bar>) 0) = NaN"
    by (cases "b \<ge> 0") (simp_all add: js_div_def)
  then have nan: "js_min (js_div (\<bar>b\<bar> - b) 0) (js_div (- b - \<bar>b\<bar>) 0) = NaN"
    by (simp add: add.commute)
  show ?thesis
    unfolding calculateFiringSolution_def Let_def option.case
    apply (fold b_def c_def)
    using assms nan by (simp add: predictTargetPosition_def)
qed

lemma firing_solution_faster_projectile:
  assumes fast: "lengthSq v < s * s" and apart: "lengthSq (sub pos p) > 0"
  shows "calculateFiringSolution p pos (Some v) s = finite_vec pos"
proof -
  define a where "a = lengthSq v - s * s"
  define b where "b = 2 * dot v (sub pos p)"
  define c where "c = lengthSq (sub pos p)"
  define d where "d = b * b - 4 * a * c"
  have a: "a < 0" using fast by (simp add: a_def)
  have c: "c > 0" using apart by (simp add: c_def)
  have "a * c < 0" using a c by (simp add: mult_neg_pos)
  then have d: "d > b * b" by (simp add: d_def)
  have "b * b \<ge> 0" by simp
  with d have dpos: "\<not> d < 0" by linarith
  have "sqrt (b * b) < sqrt d" using d by (rule real_sqrt_less_mono)
  moreover have "sqrt (b * b) = \<bar>b\<bar>" by (rule real_sqrt_abs2)
  ultimately have num: "- b + sqrt d > 0" by linarith
  have t1: "(- b + sqrt d) / (2 * a) < 0"
    using num a by (simp add: divide_pos_neg)
  have "min ((- b + sqrt d) / (2 * a)) ((- b - sqrt d) / (2 * a)) < 0"
    using t1 by (simp add: min_less_iff_disj)
  then have "js_lt_zero (js_min (js_div (- b + sqrt d) (2 * a)) (js_div (- b - sqrt d) (2 * a)))"
    using a by (simp add: js_div_def)
  then show ?thesis
    using dpos
    by (simp add: calculateFiringSolution_def Let_def a_def [symmetric] b_def [symmetric]
        c_def [symmetric] d_def [symmetric])
qed

text \<open>
  C7: calculateFiringSolution is claimed to return the position projected
  forward by the intercept time whenever a non-negative intercept time exists,
  also when hostile and projectile speeds are equal.  The code takes the
  smaller root and falls back when that one is negative.  A shooter at the
  origin with projectile speed 2 and a hostile at \<open>(3, 0, 0)\<close> moving at
  \<open>(1, 0, 0)\<close> has the intercept time 3 (the hostile is then at distance
  \<open>6 = 2 * 3\<close>), yet the current position is returned.  With equal speeds
  (hostile at \<open>(4, 0, 0)\<close> approaching at \<open>(-1, 0, 0)\<close>, projectile speed 1,
  intercept time 2) the division by zero makes every coordinate \<open>NaN\<close>.
\<close>

theorem firing_solution_lead_lost:
  "calculateFiringSolution (Vector3 0 0 0) (Vector3 3 0 0) (Some (Vector3 1 0 0)) 2
     = finite_vec (Vector3 3 0 0)
   \<and> distanceTo (Vector3 0 0 0) (Vector3 (3 + 1 * 3) 0 0) = 2 * 3
   \<and> calculateFiringSolution (Vector3 0 0 0) (Vector3 4 0 0) (Some (Vector3 (- 1) 0 0)) 1
     = JSVector3 NaN NaN NaN
   \<and> distanceTo (Vector3 0 0 0) (Vector3 (4 + (- 1) * 2) 0 0) = 1 * 2"
  by (simp add: calculateFiringSolution_def sub_def dot_def lengthSq_def Let_def js_div_def
      predictTargetPosition_def distanceTo_def)

section \<open>Tick driver: results\<close>

lemma addParticleEffect_fields [simp]:
  "gamePhase (addParticleEffect env p t c l s) = gamePhase s"
  "lives (addParticleEffect env p t c l s) = lives s"
  "waveProgress (addParticleEffect env p t c l s) = waveProgress s"
  "enemies (addParticleEffect env p t c l s) = enemies s"
  "money (addParticleEffect env p t c l s) = money s"
  "score (addParticleEffect env p t c l s) = score s"
  "towers (addParticleEffect env p t c l s) = towers s"
  by (simp_all add: addParticleEffect_def Let_def)

lemma damageEnemy_fields [simp]:
  "gamePhase (damageEnemy env i d s) = gamePhase s"
  "lives (damageEnemy env i d s) = lives s"
  "waveProgress (damageEnemy env i d s) = waveProgress s"
  "towers (damageEnemy env i d s) = towers s"
  by (simp_all add: damageEnemy_def Let_def removeEnemy_def split: option.splits)

lemma fireLaser_fields [simp]:
  "gamePhase (fireLaser env i j s) = gamePhase s"
  "lives (fireLaser env i j s) = lives s"
  "waveProgress (fireLaser env i j s) = waveProgress s"
  "towers (fireLaser env i j s) = towers s"
  by (simp_all add: fireLaser_def Let_def split: option.splits)

lemma spawnEnemy_fields [simp]:
  "gamePhase (spawnEnemy env t s) = gamePhase s"
  "lives (spawnEnemy env t s) = lives s"
  "waveProgress (spawnEnemy env t s) = waveProgress s"
  by (simp_all add: spawnEnemy_def Let_def split: prod.splits)

lemma tower_step_fields:
  "gamePhase (snd (tower_step env st g (acc, cur) t)) = gamePhase cur"
  "lives (snd (tower_step env st g (acc, cur) t)) = lives cur"
  by (simp_all add: Let_def split: option.splits)

lemma tower_fold_fields:
  "gamePhase (snd (foldl (tower_step env st g) a ts)) = gamePhase (snd a)
   \<and> lives (snd (foldl (tower_step env st g) a ts)) = lives (snd a)"
proof (induction ts arbitrary: a)
  case Nil
  then show ?case by simp
next
  case (Cons t ts)
  obtain acc cur where a: "a = (acc, cur)" by (cases a)
  show ?case
    using Cons.IH [of "tower_step env st g (acc, cur) t"]
      tower_step_fields [of env st g acc cur t]
    by (simp add: a del: tower_step.simps)
qed

lemma enemy_fold_fields:
  "gamePhase (snd (foldl (enemy_step dt) a es)) = gamePhase (snd a)
   \<and> lives (snd (foldl (enemy_step dt) a es))
       = lives (snd a) - int (length (filter (breaches dt) es))"
proof (induction es arbitrary: a)
  case Nil
  then show ?case by simp
next
  case (Cons e es)
  obtain acc cur where a: "a = (acc, cur)" by (cases a)
  show ?case
    using Cons.IH [of "enemy_step dt (acc, cur) e"]
    by (simp add: a Let_def breaches_def)
qed

lemma js_rem_30: "js_rem x 30 / 30 < 1"
proof -
  have "x / 30 - of_int (if x / 30 \<ge> 0 then \<lfloor>x / 30\<rfloor> else \<lceil>x / 30\<rceil>) < 1"
    by (simp; linarith)
  then show ?thesis by (simp add: js_rem_def)
qed

lemma updateGame_playing:
  assumes "gamePhase s = Playing"
  shows "waveProgress (updateGame env dt s) < 1"
    and "gamePhase (updateGame env dt s) = (if lives s \<le> 0 then Ended else Playing)"
    and "lives (updateGame env dt s)
           = lives s - int (length (filter (breaches dt) (enemies s)))"
    and "gameTime (updateGame env dt s) = gameTime s + dt"
proof -
  have w: "\<not> 1 \<le> min (js_rem (gameTime s + dt) 30 / 30) 1"
    using js_rem_30 [of "gameTime s + dt"] by simp
  show "waveProgress (updateGame env dt s) < 1"
    using assms js_rem_30 [of "gameTime s + dt"] by (simp add: updateGame_def Let_def)
  show "gamePhase (updateGame env dt s) = (if lives s \<le> 0 then Ended else Playing)"
    using assms w by (simp add: updateGame_def Let_def tower_fold_fields enemy_fold_fields)
  show "lives (updateGame env dt s)
          = lives s - int (length (filter (breaches dt) (enemies s)))"
    using assms w by (simp add: updateGame_def Let_def tower_fold_fields enemy_fold_fields)
  show "gameTime (updateGame env dt s) = gameTime s + dt"
    using assms by (simp add: updateGame_def Let_def)
qed

lemma updateGame_not_playing: "gamePhase s \<noteq> Playing \<Longrightarrow> updateGame env dt s = s"
  by (simp add: updateGame_def)

lemma perform_waveProgress:
  "waveProgress s < 1 \<Longrightarrow> waveProgress (perform env s a) < 1"
proof (cases a)
  case (UpdateGame dt)
  assume "waveProgress s < 1"
  then show ?thesis
    using UpdateGame updateGame_playing(1) [of s env dt] updateGame_not_playing [of s env dt]
    by (cases "gamePhase s = Playing") simp_all
qed (simp_all add: setGamePhase_def initializeGame_def startGame_def pauseGame_def
      resumeGame_def restartGame_def nextWave_def placeTower_def Let_def removeEnemy_def
      updateTowerTarget_def)

lemma foldl_waveProgress:
  "waveProgress s < 1 \<Longrightarrow> waveProgress (foldl (perform env) s acts) < 1"
  by (induction acts arbitrary: s) (simp_all add: perform_waveProgress)

text \<open>
  C2: with one life left, a tick in which a hostile breaches is claimed to end
  the session in that same tick.  In the code the game-over test reads the
  snapshot taken when the tick began, where \<open>lives\<close> is still 1: after the tick
  the hostile is gone and \<open>lives\<close> is 0, but the phase is still \<open>playing\<close>.  The
  phase changes one tick later, and that tick still runs its whole body (the
  clock advances to 2).
\<close>

theorem breach_at_last_life_keeps_playing:
  "lives (updateGame example_env 1 last_life) = 0
   \<and> enemies (updateGame example_env 1 last_life) = []
   \<and> gamePhase (updateGame example_env 1 last_life) = Playing
   \<and> gamePhase (updateGame example_env 1 (updateGame example_env 1 last_life)) = Ended
   \<and> gameTime (updateGame example_env 1 (updateGame example_env 1 last_life)) = 2"
  by (simp add: updateGame_def Let_def last_life_def initial_state_def walker_def
      example_env_def js_rem_def)

text \<open>
  C9: in the phases \<open>menu\<close>, \<open>paused\<close> and \<open>ended\<close> a tick returns the store as it
  was, for every time delta: every collection, every counter, the clock, the
  wave progress and the phase are unchanged.  In the phase \<open>playing\<close> the tick
  body runs: the clock advances by the delta.
\<close>

theorem updateGame_inert_unless_playing:
  "((gamePhase s = Menu \<or> gamePhase s = Paused \<or> gamePhase s = Ended)
      \<longrightarrow> updateGame env dt s = s)
   \<and> (gamePhase s = Playing \<longrightarrow> gameTime (updateGame env dt s) = gameTime s + dt)"
  using updateGame_playing(4) [of s env dt] updateGame_not_playing [of s env dt] by auto

theorem updateGame_inert_unless_playing_witness:
  "gamePhase initial_state = Menu
   \<and> updateGame example_env 1 initial_state = initial_state
   \<and> gamePhase (pauseGame (startGame initial_state)) = Paused
   \<and> updateGame example_env 1 (pauseGame (startGame initial_state))
       = pauseGame (startGame initial_state)
   \<and> gamePhase (setGamePhase Ended initial_state) = Ended
   \<and> updateGame example_env 1 (setGamePhase Ended initial_state)
       = setGamePhase Ended initial_state
   \<and> gamePhase (startGame initial_state) = Playing
   \<and> gameTime (updateGame example_env 1 (startGame initial_state)) = 1"
proof -
  have p1: "gamePhase initial_state = Menu"
    by (simp add: initial_state_def)
  have p2: "gamePhase (pauseGame (startGame initial_state)) = Paused"
    by (simp add: pauseGame_def)
  have p3: "gamePhase (setGamePhase Ended initial_state) = Ended"
    by (simp add: setGamePhase_def)
  have p4: "gamePhase (startGame initial_state) = Playing"
    by (simp add: startGame_def)
  have t: "gameTime (startGame initial_state) = 0"
    by (simp add: startGame_def initial_state_def)
  show ?thesis
    using updateGame_inert_unless_playing [of initial_state example_env 1]
      updateGame_inert_unless_playing [of "pauseGame (startGame initial_state)" example_env 1]
      updateGame_inert_unless_playing [of "setGamePhase Ended initial_state" example_env 1]
      updateGame_inert_unless_playing [of "startGame initial_state" example_env 1]
      p1 p2 p3 p4 t
    by simp
qed

text \<open>
  C10: after a tick in the phase \<open>playing\<close> the wave-progress fraction is
  strictly below 1, so the victory branch is never taken: the phase after the
  tick is \<open>ended\<close> exactly when \<open>lives\<close> was at most 0 when the tick began, and
  \<open>playing\<close> otherwise, whatever the wave index, the hostiles and the clock are.
  The fraction is below 1 in every state a session reaches from the initial
  state through the store's actions.
\<close>

theorem victory_branch_unreachable:
  "(gamePhase s = Playing \<longrightarrow>
      waveProgress (updateGame env dt s) < 1
      \<and> gamePhase (updateGame env dt s) = (if lives s \<le> 0 then Ended else Playing))
   \<and> waveProgress (run env acts) < 1"
proof -
  have "waveProgress initial_state < 1"
    by (simp add: initial_state_def)
  then have "waveProgress (run env acts) < 1"
    unfolding run_def by (rule foldl_waveProgress)
  then show ?thesis
    using updateGame_playing(1,2) [of s env dt] by simp
qed

theorem victory_branch_unreachable_witness:
  "gamePhase (initial_state\<lparr>gamePhase := Playing, currentWave := 10, gameTime := 29\<rparr>) = Playing
   \<and> waveProgress (updateGame example_env 1
        (initial_state\<lparr>gamePhase := Playing, currentWave := 10, gameTime := 29\<rparr>)) < 1
   \<and> gamePhase (updateGame example_env 1
        (initial_state\<lparr>gamePhase := Playing, currentWave := 10, gameTime := 29\<rparr>)) = Playing"
proof -
  have p: "gamePhase (initial_state\<lparr>gamePhase := Playing, currentWave := 10, gameTime := 29\<rparr>)
             = Playing"
    by simp
  have l: "\<not> lives (initial_state\<lparr>gamePhase := Playing, currentWave := 10, gameTime := 29\<rparr>)
               \<le> 0"
    by (simp add: initial_state_def)
  show ?thesis
    using victory_branch_unreachable
      [of "initial_state\<lparr>gamePhase := Playing, currentWave := 10, gameTime := 29\<rparr>"
          example_env 1 "[]"] p l
    by simp
qed

section \<open>Combat resolution: results\<close>

lemma armor_nonneg:
  "0 \<le> a \<Longrightarrow> calculateArmorReduction d a = Fin (max 1 (d * (1 - a / (a + 100))))"
  by (simp add: calculateArmorReduction_def js_div_def)

lemma armor_factor_mono:
  fixes a1 a2 :: real
  assumes "0 \<le> a1" "a1 \<le> a2"
  shows "1 - a2 / (a2 + 100) \<le> 1 - a1 / (a1 + 100)" and "0 < 1 - a2 / (a2 + 100)"
proof -
  have pos: "0 < a1 + 100" "0 < a2 + 100"
    using assms by linarith+
  have "a1 / (a1 + 100) \<le> a2 / (a2 + 100)"
    using pos assms by (simp add: field_simps)
  then show "1 - a2 / (a2 + 100) \<le> 1 - a1 / (a1 + 100)"
    by simp
  have "a2 / (a2 + 100) < 1"
    using pos by simp
  then show "0 < 1 - a2 / (a2 + 100)"
    by simp
qed

lemma armor_mono:
  fixes a1 a2 d :: real
  assumes "0 \<le> a1" "a1 \<le> a2"
  shows "max 1 (d * (1 - a2 / (a2 + 100))) \<le> max 1 (d * (1 - a1 / (a1 + 100)))"
proof (cases "0 \<le> d")
  case True
  have "d * (1 - a2 / (a2 + 100)) \<le> d * (1 - a1 / (a1 + 100))"
    using armor_factor_mono(1) [OF assms] True by (rule mult_left_mono)
  then show ?thesis by simp
next
  case False
  then have "d * (1 - a2 / (a2 + 100)) \<le> 0"
    using armor_factor_mono(2) [OF assms] by (simp add: mult_le_0_iff)
  then show ?thesis by simp
qed

lemma damageEnemy_found:
  assumes "find (\<lambda>x. enemy_id x = i) (enemies s) = Some e"
  shows "0 < enemy_health e - d \<Longrightarrow>
           enemies (damageEnemy env i d s)
             = map (\<lambda>x. if enemy_id x = i then x\<lparr>enemy_health := enemy_health e - d\<rparr> else x)
                   (enemies s)"
    and "enemy_health e - d \<le> 0 \<Longrightarrow>
           enemies (damageEnemy env i d s) = filter (\<lambda>x. enemy_id x \<noteq> i) (enemies s)"
    and "enemy_health e - d \<le> 0 \<Longrightarrow>
           money (damageEnemy env i d s) = money s + enemy_reward e"
    and "enemy_health e - d \<le> 0 \<Longrightarrow>
           score (damageEnemy env i d s) = score s + enemy_reward e"
  using assms by (simp_all add: damageEnemy_def Let_def removeEnemy_def max_def)

text \<open>
  C4 (as stated): the health a hit subtracts is the raw damage reduced by the
  armor formula (with a floor of 1).  damageEnemy applies no such reduction: a
  hit of 50 on a hostile of health 100 leaves 50, where the formula at armor
  100 gives an effective damage of 25; a hit of 1/2 leaves 199/2, where the
  formula at armor 0 gives its floor 1.
\<close>

theorem damageEnemy_armor_counterexample:
  "map enemy_health (enemies (damageEnemy example_env (Lit ''e1'') 50 one_hostile)) = [50]
   \<and> calculateArmorReduction 50 100 = Fin 25
   \<and> map enemy_health (enemies (damageEnemy example_env (Lit ''e1'') (1 / 2) one_hostile))
       = [199 / 2]
   \<and> calculateArmorReduction (1 / 2) 0 = Fin 1"
  by (simp add: damageEnemy_def Let_def one_hostile_def initial_state_def walker_def
      addParticleEffect_def calculateArmorReduction_def js_div_def)

text \<open>
  C4 (amended): damageEnemy subtracts the raw damage from the health of the
  hostile it finds: when the difference is positive the hostile keeps it as
  its health, otherwise the hostile is removed and its reward is credited to
  currency and score.  Hostiles of the session carry neither armor nor
  resistances.  The diminishing-returns formula is the helper
  calculateArmorReduction, which damage application does not call: for armor
  \<open>\<ge> 0\<close> it yields \<open>max(1, raw * (1 - armor / (armor + 100)))\<close>, which is
  non-increasing in the armor, \<open>max(1, raw)\<close> at armor 0 and \<open>max(1, raw / 2)\<close> at
  armor 100.
\<close>

theorem damageEnemy_applies_raw_damage:
  assumes "find (\<lambda>x. enemy_id x = i) (enemies s) = Some e"
  shows "(0 < enemy_health e - d \<longrightarrow>
            enemies (damageEnemy env i d s)
              = map (\<lambda>x. if enemy_id x = i then x\<lparr>enemy_health := enemy_health e - d\<rparr> else x)
                    (enemies s))
    \<and> (enemy_health e - d \<le> 0 \<longrightarrow>
            enemies (damageEnemy env i d s) = filter (\<lambda>x. enemy_id x \<noteq> i) (enemies s)
            \<and> money (damageEnemy env i d s) = money s + enemy_reward e
            \<and> score (damageEnemy env i d s) = score s + enemy_reward e)
    \<and> (0 \<le> a1 \<and> a1 \<le> a2 \<longrightarrow>
            calculateArmorReduction raw a1 = Fin (max 1 (raw * (1 - a1 / (a1 + 100))))
            \<and> calculateArmorReduction raw a2 = Fin (max 1 (raw * (1 - a2 / (a2 + 100))))
            \<and> max 1 (raw * (1 - a2 / (a2 + 100))) \<le> max 1 (raw * (1 - a1 / (a1 + 100))))
    \<and> calculateArmorReduction raw 0 = Fin (max 1 raw)
    \<and> calculateArmorReduction raw 100 = Fin (max 1 (raw / 2))"
proof -
  have "calculateArmorReduction raw 0 = Fin (max 1 raw)"
    using armor_nonneg [of 0 raw] by simp
  moreover have "calculateArmorReduction raw 100 = Fin (max 1 (raw / 2))"
    using armor_nonneg [of 100 raw] by simp
  moreover have "0 \<le> a1 \<and> a1 \<le> a2 \<longrightarrow>
            calculateArmorReduction raw a1 = Fin (max 1 (raw * (1 - a1 / (a1 + 100))))
            \<and> calculateArmorReduction raw a2 = Fin (max 1 (raw * (1 - a2 / (a2 + 100))))
            \<and> max 1 (raw * (1 - a2 / (a2 + 100))) \<le> max 1 (raw * (1 - a1 / (a1 + 100)))"
    using armor_nonneg [of a1 raw] armor_nonneg [of a2 raw] armor_mono [of a1 a2 raw] by simp
  ultimately show ?thesis
    using damageEnemy_found [OF assms, of d env] by simp
qed

theorem damageEnemy_applies_raw_damage_witness:
  "find (\<lambda>x. enemy_id x = Lit ''e1'') (enemies one_hostile) = Some (walker ''e1'' (1 / 2))
   \<and> map enemy_health (enemies (damageEnemy example_env (Lit ''e1'') 50 one_hostile)) = [50]
   \<and> enemies (damageEnemy example_env (Lit ''e1'') 100 one_hostile) = []
   \<and> money (damageEnemy example_env (Lit ''e1'') 100 one_hostile) = money one_hostile + 10
   \<and> calculateArmorReduction 50 0 = Fin 50
   \<and> calculateArmorReduction 50 100 = Fin 25"
proof -
  have h: "find (\<lambda>x. enemy_id x = Lit ''e1'') (enemies one_hostile)
             = Some (walker ''e1'' (1 / 2))"
    by (simp add: one_hostile_def walker_def)
  have e: "enemies one_hostile = [walker ''e1'' (1 / 2)]"
    by (simp add: one_hostile_def)
  have w: "enemy_health (walker ''e1'' (1 / 2)) = 100" "enemy_reward (walker ''e1'' (1 / 2)) = 10"
    "enemy_id (walker ''e1'' (1 / 2)) = Lit ''e1''"
    by (simp_all add: walker_def)
  show ?thesis
    using damageEnemy_applies_raw_damage
            [OF h, where d = 50 and env = example_env and raw = 50 and ?a1.0 = 0 and ?a2.0 = 100]
      damageEnemy_applies_raw_damage
            [OF h, where d = 100 and env = example_env and raw = 50 and ?a1.0 = 0 and ?a2.0 = 100]
      h
    by (simp add: e w)
qed

section \<open>Economy: results\<close>

lemma playTowerCard_fail:
  "\<not> fst (playTowerCard env theCard g) \<Longrightarrow> snd (playTowerCard env theCard g) = g"
  by (simp add: playTowerCard_def Let_def split: list.splits)

lemma playSpellCard_fail:
  "\<not> fst (playSpellCard env theCard g) \<Longrightarrow> snd (playSpellCard env theCard g) = g"
  by (simp add: playSpellCard_def split: if_splits)

lemma playUpgradeCard_fail:
  "\<not> fst (playUpgradeCard theCard g) \<Longrightarrow> snd (playUpgradeCard theCard g) = g"
  by (simp add: playUpgradeCard_def split: list.splits)

text \<open>A rejected playCard leaves both stores as they were.\<close>

lemma playCard_rejected:
  assumes "\<not> fst (playCard env cardId (c, g))"
  shows "playCard env cardId (c, g) = (False, c, g)"
proof (cases "find (\<lambda>cd. card_id cd = cardId) (hand c)")
  case None
  then show ?thesis by (simp add: playCard_def)
next
  case (Some theCard)
  show ?thesis
  proof (cases "money g < card_cost theCard")
    case True
    with Some show ?thesis by (simp add: playCard_def)
  next
    case False
    show ?thesis
      using assms Some False playTowerCard_fail [of env theCard g]
        playSpellCard_fail [of env theCard g] playUpgradeCard_fail [of theCard g]
      by (cases "card_type theCard") (simp_all add: playCard_def Let_def split: if_splits)
  qed
qed

text \<open>An accepted playCard filters the card out of the hand; deck and discard pile stay.\<close>

lemma playCard_accepted:
  assumes "fst (playCard env cardId (c, g))"
  shows "fst (snd (playCard env cardId (c, g))) = removeCardFromHand cardId c"
proof (cases "find (\<lambda>cd. card_id cd = cardId) (hand c)")
  case None
  with assms show ?thesis by (simp add: playCard_def)
next
  case (Some theCard)
  show ?thesis
  proof (cases "money g < card_cost theCard")
    case True
    with assms Some show ?thesis by (simp add: playCard_def)
  next
    case False
    with assms Some show ?thesis
      by (simp add: playCard_def Let_def split: if_splits)
  qed
qed

text \<open>No branch of playCard writes the deck or the discard pile.\<close>

lemma playCard_keeps_piles:
  "discardPile (fst (snd (playCard env cardId (c, g)))) = discardPile c
   \<and> deck (fst (snd (playCard env cardId (c, g)))) = deck c"
proof (cases "fst (playCard env cardId (c, g))")
  case True
  from playCard_accepted [OF True] show ?thesis
    by (simp add: removeCardFromHand_def)
next
  case False
  from playCard_rejected [OF False] show ?thesis
    by simp
qed

lemma playCard_can_overdraw:
  "money (snd (snd (playCard example_env (Lit ''c1'')
            (one_card_hand, (startGame initial_state)\<lparr>money := 50\<rparr>)))) = - 50"
  by (simp add: playCard_def Let_def one_card_hand_def basicTower_def startGame_def
      initial_state_def playTowerCard_def tower_positions_def placeTower_def
      removeCardFromHand_def)

text \<open>
  C1: a successful playCard is claimed to deduct exactly the card's cost and to
  move the card from the hand to the discard pile, keeping the number of cards
  constant.  Playing the Basic Tower card (cost 50) from a one-card hand with a
  balance of 100 succeeds, the card leaves the hand, but the discard pile stays
  empty (the card count drops from 1 to 0) and the balance drops to 0:
  placeTower charges its own 50 before playCard deducts the card's cost.
\<close>

theorem playCard_loses_card_and_charges_twice:
  "fst (playCard example_env (Lit ''c1'') (one_card_hand, startGame initial_state)) = True
   \<and> hand (fst (snd (playCard example_env (Lit ''c1'')
                        (one_card_hand, startGame initial_state)))) = []
   \<and> discardPile (fst (snd (playCard example_env (Lit ''c1'')
                               (one_card_hand, startGame initial_state)))) = []
   \<and> card_count one_card_hand = 1
   \<and> card_count (fst (snd (playCard example_env (Lit ''c1'')
                              (one_card_hand, startGame initial_state)))) = 0
   \<and> card_cost (basicTower ''c1'') = 50
   \<and> money (startGame initial_state) = 100
   \<and> money (snd (snd (playCard example_env (Lit ''c1'')
                         (one_card_hand, startGame initial_state)))) = 0"
  by (simp add: playCard_def Let_def one_card_hand_def basicTower_def startGame_def
      initial_state_def playTowerCard_def tower_positions_def placeTower_def
      removeCardFromHand_def card_count_def)

lemma drawCard_reject:
  "length (hand c) \<ge> maxHandSize c \<or> money g < 10 \<Longrightarrow> drawCard sh (c, g) = (False, c, g)"
  by (auto simp add: drawCard_def Let_def)

lemma drawCard_mset:
  "mset (hand (fst (snd (drawCard sh (c, g))))) + mset (deck (fst (snd (drawCard sh (c, g)))))
     + mset (discardPile (fst (snd (drawCard sh (c, g)))))
   = mset (hand c) + mset (deck c) + mset (discardPile c)"
  by (simp add: drawCard_def Let_def shuffleDeck_def split: list.splits)

lemma drawCard_count: "card_count (fst (snd (drawCard sh (c, g)))) = card_count c"
  by (simp add: drawCard_def Let_def shuffleDeck_def card_count_def split: list.splits)

text \<open>
  The recycled deck keeps the order of the discard pile, whatever \<open>shuffle\<close> is:
  \<open>shuffleDeck\<close> reorders the empty deck of the store, which is overwritten next.
\<close>

lemma drawCard_recycle:
  assumes "length (hand c) < maxHandSize c" "\<not> money g < 10" "deck c = []"
    "discardPile c \<noteq> []"
  shows "drawCard sh (c, g)
           = (True,
              c\<lparr>hand := hand c @ [hd (discardPile c)], deck := tl (discardPile c),
                discardPile := []\<rparr>,
              g\<lparr>money := money g - 10\<rparr>)"
  using assms by (simp add: drawCard_def Let_def shuffleDeck_def split: list.splits)

lemma placeTower_money:
  "0 \<le> money g \<Longrightarrow> 0 \<le> money (placeTower env p t g)"
  "money g < 50 \<Longrightarrow> placeTower env p t g = g"
  by (simp_all add: placeTower_def Let_def)

lemma drawCard_money:
  "0 \<le> money g \<Longrightarrow> 0 \<le> money (snd (snd (drawCard sh (c, g))))"
  by (simp add: drawCard_def Let_def split: list.splits)

text \<open>
  What drawCard does keep: it returns false and changes nothing when the hand
  is at \<open>maxHandSize\<close> or the currency is below 10; when the deck is empty and
  the discard pile is not, an accepted draw empties the discard pile into the
  deck and draws from it; and every call keeps the cards of hand, deck and
  discard pile together the same, and so their number.
\<close>

theorem drawCard_rejects_and_conserves:
  "((length (hand c) \<ge> maxHandSize c \<or> money g < 10) \<longrightarrow> drawCard sh (c, g) = (False, c, g))
   \<and> (length (hand c) < maxHandSize c \<and> \<not> money g < 10 \<and> deck c = [] \<and> discardPile c \<noteq> []
        \<longrightarrow> fst (drawCard sh (c, g))
            \<and> discardPile (fst (snd (drawCard sh (c, g)))) = []
            \<and> (\<exists>x. hand (fst (snd (drawCard sh (c, g)))) = hand c @ [x]
                   \<and> mset (x # deck (fst (snd (drawCard sh (c, g))))) = mset (discardPile c)))
   \<and> card_count (fst (snd (drawCard sh (c, g)))) = card_count c
   \<and> mset (hand (fst (snd (drawCard sh (c, g))))) + mset (deck (fst (snd (drawCard sh (c, g)))))
       + mset (discardPile (fst (snd (drawCard sh (c, g)))))
     = mset (hand c) + mset (deck c) + mset (discardPile c)"
proof -
  have "length (hand c) < maxHandSize c \<and> \<not> money g < 10 \<and> deck c = [] \<and> discardPile c \<noteq> []
        \<longrightarrow> fst (drawCard sh (c, g))
            \<and> discardPile (fst (snd (drawCard sh (c, g)))) = []
            \<and> (\<exists>x. hand (fst (snd (drawCard sh (c, g)))) = hand c @ [x]
                   \<and> mset (x # deck (fst (snd (drawCard sh (c, g))))) = mset (discardPile c))"
  proof
    assume a: "length (hand c) < maxHandSize c \<and> \<not> money g < 10 \<and> deck c = []
                 \<and> discardPile c \<noteq> []"
    then have "drawCard sh (c, g)
                 = (True,
                    c\<lparr>hand := hand c @ [hd (discardPile c)], deck := tl (discardPile c),
                      discardPile := []\<rparr>,
                    g\<lparr>money := money g - 10\<rparr>)"
      using drawCard_recycle [of c g sh] by simp
    moreover have "mset (hd (discardPile c) # tl (discardPile c)) = mset (discardPile c)"
      using a by simp
    ultimately show "fst (drawCard sh (c, g))
            \<and> discardPile (fst (snd (drawCard sh (c, g)))) = []
            \<and> (\<exists>x. hand (fst (snd (drawCard sh (c, g)))) = hand c @ [x]
                   \<and> mset (x # deck (fst (snd (drawCard sh (c, g))))) = mset (discardPile c))"
      by simp
  qed
  then show ?thesis
    using drawCard_reject [of c g sh] drawCard_count [of sh c g] drawCard_mset [of sh c g]
    by blast
qed

theorem drawCard_rejects_and_conserves_witness:
  "money ((startGame initial_state)\<lparr>money := 5\<rparr>) < 10
   \<and> drawCard rev (recycling_cards, (startGame initial_state)\<lparr>money := 5\<rparr>)
       = (False, recycling_cards, (startGame initial_state)\<lparr>money := 5\<rparr>)
   \<and> length (hand recycling_cards) < maxHandSize recycling_cards
   \<and> \<not> money (startGame initial_state) < 10
   \<and> deck recycling_cards = [] \<and> discardPile recycling_cards \<noteq> []
   \<and> fst (drawCard rev (recycling_cards, startGame initial_state))
   \<and> discardPile (fst (snd (drawCard rev (recycling_cards, startGame initial_state)))) = []
   \<and> card_count (fst (snd (drawCard rev (recycling_cards, startGame initial_state)))) = 2"
proof -
  have m5: "money ((startGame initial_state)\<lparr>money := 5\<rparr>) < 10"
    by simp
  have m100: "\<not> money (startGame initial_state) < 10"
    by (simp add: startGame_def initial_state_def)
  have cs: "length (hand recycling_cards) < maxHandSize recycling_cards"
    "deck recycling_cards = []" "discardPile recycling_cards \<noteq> []"
    "card_count recycling_cards = 2"
    by (simp_all add: recycling_cards_def card_count_def)
  show ?thesis
    using drawCard_rejects_and_conserves
            [of recycling_cards "(startGame initial_state)\<lparr>money := 5\<rparr>" rev]
      drawCard_rejects_and_conserves [of recycling_cards "startGame initial_state" rev]
      m5 m100 cs
    by simp
qed

text \<open>
  C8: when the deck is empty, drawCard is claimed to shuffle the discard pile
  into the deck before drawing.  With the discard pile \<open>[c1, c2]\<close> and a
  shuffle that reverses its argument, a shuffled deck would be \<open>[c2, c1]\<close>;
  the draw takes \<open>c1\<close> and leaves the deck \<open>[c2]\<close>: the discard pile is
  moved in its own order, since the shuffle is applied to the empty deck of
  the store and the unshuffled copy is stored over it.
\<close>

theorem drawCard_recycles_unshuffled:
  "map card_id (discardPile recycling_cards) = [Lit ''c1'', Lit ''c2'']
   \<and> map card_id
         (deck (shuffleDeck rev (recycling_cards\<lparr>deck := discardPile recycling_cards\<rparr>)))
       = [Lit ''c2'', Lit ''c1'']
   \<and> fst (drawCard rev (recycling_cards, startGame initial_state)) = True
   \<and> map card_id (hand (fst (snd (drawCard rev (recycling_cards, startGame initial_state)))))
       = [Lit ''c1'']
   \<and> map card_id (deck (fst (snd (drawCard rev (recycling_cards, startGame initial_state)))))
       = [Lit ''c2'']
   \<and> discardPile (fst (snd (drawCard rev (recycling_cards, startGame initial_state)))) = []"
  by (simp add: drawCard_def Let_def shuffleDeck_def recycling_cards_def basicTower_def
      startGame_def initial_state_def)

text \<open>
  C6 (as stated): no operation drives lives below zero.  The hostile loop
  decrements \<open>lives\<close> once per breach without a bound: with one life left and
  two hostiles breaching in the same tick, \<open>lives\<close> is negative after the tick.
\<close>

theorem lives_negative_counterexample:
  "lives two_at_the_gate = 1 \<and> lives (updateGame example_env 1 two_at_the_gate) < 0"
  by (simp add: updateGame_def Let_def two_at_the_gate_def initial_state_def walker_def
      example_env_def js_rem_def)

text \<open>
  C6 (amended): placement and card draws check the currency before spending
  it: from a non-negative balance placeTower (cost 50) and drawCard (cost 10)
  leave a non-negative balance, and with less than their cost they leave the
  state unchanged.  Lives have no lower bound: a tick in the phase \<open>playing\<close>
  decrements \<open>lives\<close> by the number of hostiles that breach in it.
\<close>

theorem currency_checked_lives_unguarded:
  "(0 \<le> money g \<longrightarrow> 0 \<le> money (placeTower env p t g))
   \<and> (money g < 50 \<longrightarrow> placeTower env p t g = g)
   \<and> (0 \<le> money g \<longrightarrow> 0 \<le> money (snd (snd (drawCard sh (c, g)))))
   \<and> (money g < 10 \<longrightarrow> drawCard sh (c, g) = (False, c, g))
   \<and> (gamePhase g = Playing \<longrightarrow>
        lives (updateGame env dt g)
          = lives g - int (length (filter (breaches dt) (enemies g))))"
  using placeTower_money [of g env p t] drawCard_money [of g sh c] drawCard_reject [of c g sh]
    updateGame_playing(3) [of g env dt]
  by blast

theorem currency_checked_lives_unguarded_witness:
  "0 \<le> money (startGame initial_state)
   \<and> 0 \<le> money (placeTower example_env (Vector3 5 0 0) ''Basic Tower'' (startGame initial_state))
   \<and> money ((startGame initial_state)\<lparr>money := 5\<rparr>) < 50
   \<and> placeTower example_env (Vector3 5 0 0) ''Basic Tower''
         ((startGame initial_state)\<lparr>money := 5\<rparr>)
       = (startGame initial_state)\<lparr>money := 5\<rparr>
   \<and> drawCard rev (recycling_cards, (startGame initial_state)\<lparr>money := 5\<rparr>)
       = (False, recycling_cards, (startGame initial_state)\<lparr>money := 5\<rparr>)
   \<and> 0 \<le> money (snd (snd (drawCard rev (recycling_cards, startGame initial_state))))
   \<and> gamePhase two_at_the_gate = Playing
   \<and> lives (updateGame example_env 1 two_at_the_gate) = - 1"
proof -
  have m: "0 \<le> money (startGame initial_state)"
    by (simp add: startGame_def initial_state_def)
  have m5: "money ((startGame initial_state)\<lparr>money := 5\<rparr>) < 50"
    "money ((startGame initial_state)\<lparr>money := 5\<rparr>) < 10"
    by simp_all
  have g: "gamePhase two_at_the_gate = Playing" "lives two_at_the_gate = 1"
    "filter (breaches 1) (enemies two_at_the_gate) = enemies two_at_the_gate"
    "length (enemies two_at_the_gate) = 2"
    by (simp_all add: two_at_the_gate_def initial_state_def walker_def breaches_def)
  show ?thesis
    using currency_checked_lives_unguarded
            [of "startGame initial_state" example_env "Vector3 5 0 0" "''Basic Tower''" rev
                recycling_cards 1]
      currency_checked_lives_unguarded
            [of "(startGame initial_state)\<lparr>money := 5\<rparr>" example_env "Vector3 5 0 0"
                "''Basic Tower''" rev recycling_cards 1]
      currency_checked_lives_unguarded
            [of two_at_the_gate example_env "Vector3 5 0 0" "''Basic Tower''" rev
                recycling_cards 1]
      m m5 g
    by simp
qed

end
